theory Spec2Isabelle
  imports Complex_Main
begin

section \<open>JavaScript numbers\<close>

text \<open>
  Every number of the program is a JavaScript number: an IEEE 754 binary64 value. A finite
  one is the real number it denotes; each arithmetic operation computes the exact result and
  rounds it to the nearest representable value, ties to the even significand. The sign of
  zero is not represented (no operation of the program tells the two zeros apart).
\<close>

datatype number = Finite real | PosInf | NegInf | NaN

function bit_length :: "int \<Rightarrow> int" where
  "bit_length n = (if n \<le> 0 then 0 else 1 + bit_length (n div 2))"
  by pat_completeness auto
termination
  by (relation "measure nat") auto

declare bit_length.simps [simp del]

definition pow2 :: "int \<Rightarrow> real" where
  "pow2 e = (if 0 \<le> e then 2 ^ nat e else 1 / 2 ^ nat (- e))"

text \<open>The binary exponent \<open>e\<close> of a positive real: \<open>2 ^ e \<le> x < 2 ^ (e + 1)\<close>.\<close>

definition exponent :: "real \<Rightarrow> int" where
  "exponent x = (if 1 \<le> x then bit_length \<lfloor>x\<rfloor> - 1
                 else - bit_length (\<lceil>1 / x\<rceil> - 1))"

definition round_half_even :: "real \<Rightarrow> int" where
  "round_half_even q =
     (let f = \<lfloor>q\<rfloor>; r = q - of_int f
      in if r < 1 / 2 then f else if 1 / 2 < r then f + 1
         else if even f then f else f + 1)"

text \<open>
  A positive real rounded to a multiple of the unit in the last place of its binade:
  53 significant bits, and never finer than \<open>2 ^ - 1074\<close> (the subnormal range).
\<close>

definition round_pos :: "real \<Rightarrow> real" where
  "round_pos x = (let ulp = pow2 (max (exponent x) (- 1022) - 52)
                  in of_int (round_half_even (x / ulp)) * ulp)"

definition to_double :: "real \<Rightarrow> number" where
  "to_double x =
     (if x = 0 then Finite 0
      else if 0 < x then (let y = round_pos x in if pow2 1024 \<le> y then PosInf else Finite y)
      else (let y = round_pos (- x) in if pow2 1024 \<le> y then NegInf else Finite (- y)))"

fun js_add :: "number \<Rightarrow> number \<Rightarrow> number" where
  "js_add (Finite x) (Finite y) = to_double (x + y)"
| "js_add NaN _ = NaN"
| "js_add _ NaN = NaN"
| "js_add PosInf NegInf = NaN"
| "js_add NegInf PosInf = NaN"
| "js_add PosInf _ = PosInf"
| "js_add _ PosInf = PosInf"
| "js_add NegInf _ = NegInf"
| "js_add _ NegInf = NegInf"

fun negative :: "number \<Rightarrow> bool" where
  "negative (Finite x) = (x < 0)"
| "negative NegInf = True"
| "negative _ = False"

fun js_mul :: "number \<Rightarrow> number \<Rightarrow> number" where
  "js_mul (Finite x) (Finite y) = to_double (x * y)"
| "js_mul NaN _ = NaN"
| "js_mul _ NaN = NaN"
| "js_mul a b =
     (if a = Finite 0 \<or> b = Finite 0 then NaN
      else if negative a = negative b then PosInf else NegInf)"

text \<open>Division by a finite, positive constant (the program only divides by 1000).\<close>

fun js_div_pos :: "number \<Rightarrow> real \<Rightarrow> number" where
  "js_div_pos (Finite x) d = to_double (x / d)"
| "js_div_pos a d = a"

section \<open>Cost accumulator\<close>

record TokenUsage =
  promptTokens :: number
  completionTokens :: number
  totalTokens :: number

record CostCalculation =
  totalPromptTokens :: number
  totalCompletionTokens :: number
  totalTokens :: number
  totalCostUSD :: number
  totalCostBDT :: number

text \<open>
  The pricing constants are the numbers that the literals \<open>0.005\<close>, \<open>0.015\<close> and
  \<open>110\<close> denote.
\<close>

definition PROMPT_TOKEN_COST :: number where
  "PROMPT_TOKEN_COST = to_double (5 / 1000)"

definition COMPLETION_TOKEN_COST :: number where
  "COMPLETION_TOKEN_COST = to_double (15 / 1000)"

definition USD_TO_BDT_RATE :: number where
  "USD_TO_BDT_RATE = Finite 110"

text \<open>
  \<open>calculateCost usage\<close> hands \<open>setCosts\<close> an updater of the previous totals; this is
  that updater.
\<close>

definition calculateCost :: "TokenUsage \<Rightarrow> CostCalculation \<Rightarrow> CostCalculation" where
  "calculateCost usage prev =
     (let promptCost = js_mul (js_div_pos (promptTokens usage) 1000) PROMPT_TOKEN_COST;
          completionCost =
            js_mul (js_div_pos (completionTokens usage) 1000) COMPLETION_TOKEN_COST;
          costUSD = js_add promptCost completionCost;
          costBDT = js_mul costUSD USD_TO_BDT_RATE
      in \<lparr> totalPromptTokens = js_add (totalPromptTokens prev) (promptTokens usage),
           totalCompletionTokens =
             js_add (totalCompletionTokens prev) (completionTokens usage),
           totalTokens = js_add (totalTokens prev) (TokenUsage.totalTokens usage),
           totalCostUSD = js_add (totalCostUSD prev) costUSD,
           totalCostBDT = js_add (totalCostBDT prev) costBDT \<rparr>)"

text \<open>The initial totals, which \<open>resetCosts\<close> stores again.\<close>

definition zeroCosts :: CostCalculation where
  "zeroCosts = \<lparr> totalPromptTokens = Finite 0, totalCompletionTokens = Finite 0,
                 totalTokens = Finite 0, totalCostUSD = Finite 0, totalCostBDT = Finite 0 \<rparr>"

text \<open>A usage record of three finite counts.\<close>

definition tokenUsage :: "real \<Rightarrow> real \<Rightarrow> real \<Rightarrow> TokenUsage" where
  "tokenUsage p c t = \<lparr> promptTokens = Finite p, completionTokens = Finite c,
                        TokenUsage.totalTokens = Finite t \<rparr>"

section \<open>Strings\<close>

text \<open>
  A JavaScript string is a sequence of UTF-16 code units, here natural numbers. \<open>str\<close>
  turns a literal into such a string. \<open>trim\<close> removes leading and trailing white space
  and line terminators, which are the code units that \<open>is_space\<close> lists: TAB, LF, VT,
  FF, CR, the space, the no-break space, U+1680, U+2000 to U+200A, the line and paragraph
  separators, U+202F, U+205F, U+3000 and U+FEFF. An empty string is the only falsy string.
\<close>

type_synonym jsstring = "nat list"

definition str :: "string \<Rightarrow> jsstring" where
  "str s = map of_char s"

definition is_space :: "nat \<Rightarrow> bool" where
  "is_space c \<longleftrightarrow>
     c \<in> set [0x09, 0x0A, 0x0B, 0x0C, 0x0D, 0x20, 0xA0, 0x1680, 0x2028, 0x2029, 0x202F,
                0x205F, 0x3000, 0xFEFF]
     \<or> (0x2000 \<le> c \<and> c \<le> 0x200A)"

definition trim :: "jsstring \<Rightarrow> jsstring" where
  "trim s = rev (dropWhile is_space (rev (dropWhile is_space s)))"

section \<open>Data model of the page\<close>

datatype role = User | Assistant

text \<open>
  A message of the conversation log. \<open>content\<close> is \<open>None\<close> where the program stores
  \<open>undefined\<close>. The \<open>timestamp\<close> field (the wall clock at creation) is left out.
\<close>

record Message =
  role :: role
  content :: "jsstring option"

text \<open>The JSON body of the POST to \<open>/api/chat\<close>.\<close>

record request =
  message :: jsstring
  conversationHistory :: "Message list"
  requestType :: jsstring

text \<open>
  The body of a response as the client reads it after \<open>await response.json()\<close>:
  \<open>NotJson\<close> when parsing rejects, \<open>JsonNull\<close> for the value \<open>null\<close> (reading a
  property of it throws), and otherwise the two properties that the client reads,
  \<open>data.response\<close> and \<open>data.usage\<close>, each \<open>None\<close> when it is absent. A property
  that is present has the type the interfaces declare: a string, a \<open>TokenUsage\<close>.
\<close>

datatype payload = NotJson | JsonNull | JsonData "jsstring option" "TokenUsage option"

text \<open>
  How \<open>await fetch(...)\<close> settles: the promise rejects (\<open>NetworkError\<close>) or it yields
  a response with its \<open>ok\<close> flag and its body.
\<close>

datatype fetch_outcome = NetworkError | Response bool payload

text \<open>
  The React state of the component. A value of this type is also what a closure sees: the
  functions created during one render read the state variables of that render, whatever
  has been stored since.
\<close>

record state =
  isListening :: bool
  isProcessing :: bool
  isSpeaking :: bool
  messages :: "Message list"
  transcript :: jsstring
  error :: jsstring
  silenceTimer :: "nat option"
  hasSpokenContent :: bool
  costs :: CostCalculation

text \<open>
  The functions handed to \<open>setTimeout\<close>, each with the render whose variables it reads:
  the silence timeout of \<open>onresult\<close>, the restart attempts of \<open>onerror\<close> and
  \<open>onend\<close>, and the delayed \<open>speakText\<close> of a reply.
\<close>

datatype callback =
    SilenceTimeout state
  | ErrorRestart state
  | EndRestart state
  | SpeakReply "jsstring option"

text \<open>
  Everything else that the handlers read and write: the stored state \<open>st\<close> (what the next
  render will see), the ref that holds the transcript buffer, whether a recognition object
  exists (\<open>recognitionRef\<close>) and whether it has been started and has not ended yet
  (\<open>recognizing\<close>), the pending timers as (identifier, delay in ms, callback), the next
  timer identifier, the requests sent to the backend, and the texts handed to
  \<open>speakText\<close>. Timer identifiers are never null, so a stored identifier is truthy.
\<close>

record world =
  st :: state
  finalTranscriptRef :: jsstring
  recognitionRef :: bool
  recognizing :: bool
  timers :: "(nat \<times> nat \<times> callback) list"
  nextTimer :: nat
  fetches :: "request list"
  speakTextCalls :: "jsstring option list"

definition setState :: "(state \<Rightarrow> state) \<Rightarrow> world \<Rightarrow> world" where
  "setState f w = w\<lparr> st := f (st w) \<rparr>"

definition setTimeout :: "callback \<Rightarrow> nat \<Rightarrow> world \<Rightarrow> nat \<times> world" where
  "setTimeout cb ms w =
     (nextTimer w,
      w\<lparr> timers := timers w @ [(nextTimer w, ms, cb)], nextTimer := Suc (nextTimer w) \<rparr>)"

definition clearTimeout :: "nat \<Rightarrow> world \<Rightarrow> world" where
  "clearTimeout t w = w\<lparr> timers := filter (\<lambda>x. fst x \<noteq> t) (timers w) \<rparr>"

text \<open>
  \<open>recognitionRef.current.start()\<close> throws when the recognition has already been started
  (\<open>None\<close>). \<open>stop()\<close> changes nothing here: its consequence is the end event that
  the engine delivers later.
\<close>

definition engine_start :: "world \<Rightarrow> world option" where
  "engine_start w = (if recognizing w then None else Some (w\<lparr> recognizing := True \<rparr>))"

section \<open>Turn orchestration\<close>

text \<open>
  \<open>handleUserInput\<close> up to its first \<open>await\<close>: the part that runs inside the caller's
  event. \<open>c\<close> is the render that created the function.
\<close>

definition handleUserInput :: "state \<Rightarrow> jsstring \<Rightarrow> world \<Rightarrow> world" where
  "handleUserInput c input w =
     (if trim input = [] then w
      else
        let userMessage = \<lparr> role = User, content = Some input \<rparr>;
            updatedMessages = messages c @ [userMessage];
            w1 = setState (\<lambda>s. s\<lparr> messages := updatedMessages \<rparr>) w;
            w2 = setState (\<lambda>s. s\<lparr> isProcessing := True \<rparr>) w1;
            w3 = setState (\<lambda>s. s\<lparr> transcript := [] \<rparr>) w2
        in w3\<lparr> fetches := fetches w3 @
                 [\<lparr> message = input, conversationHistory = butlast updatedMessages,
                    requestType = str ''normal'' \<rparr>] \<rparr>)"

text \<open>The \<open>catch\<close> block followed by the \<open>finally\<close> block.\<close>

definition catch_finally :: "jsstring \<Rightarrow> world \<Rightarrow> world" where
  "catch_finally msg w =
     setState (\<lambda>s. s\<lparr> isProcessing := False \<rparr>) (setState (\<lambda>s. s\<lparr> error := msg \<rparr>) w)"

text \<open>The rest of the \<open>try\<close> block once the body has been read, then \<open>finally\<close>.\<close>

definition reply_received :: "jsstring option \<Rightarrow> TokenUsage option \<Rightarrow> world \<Rightarrow> world" where
  "reply_received response usage w =
     (let assistantMessage = \<lparr> role = Assistant, content = response \<rparr>;
          w1 = setState (\<lambda>s. s\<lparr> messages := messages s @ [assistantMessage] \<rparr>) w;
          w2 = (case usage of
                  Some u \<Rightarrow> setState (\<lambda>s. s\<lparr> costs := calculateCost u (costs s) \<rparr>) w1
                | None \<Rightarrow> w1);
          w3 = snd (setTimeout (SpeakReply response) 100 w2)
      in setState (\<lambda>s. s\<lparr> isProcessing := False \<rparr>) w3)"

text \<open>\<open>handleUserInput\<close> from the moment \<open>fetch\<close> settles.\<close>

fun handleUserInput_resume :: "fetch_outcome \<Rightarrow> world \<Rightarrow> world" where
  "handleUserInput_resume NetworkError w =
     catch_finally (str ''Failed to process your request. Please try again.'') w"
| "handleUserInput_resume (Response ok body) w =
     (if \<not> ok then catch_finally (str ''Failed to process your request. Please try again.'') w
      else case body of
          NotJson \<Rightarrow> catch_finally (str ''Failed to process your request. Please try again.'') w
        | JsonNull \<Rightarrow> catch_finally (str ''Failed to process your request. Please try again.'') w
        | JsonData response usage \<Rightarrow> reply_received response usage w)"

definition requestIELTSScore :: "state \<Rightarrow> world \<Rightarrow> world" where
  "requestIELTSScore c w =
     (if messages c = []
      then setState (\<lambda>s. s\<lparr> error :=
             (str ''Please have a conversation first before requesting an IELTS score.'') \<rparr>) w
      else
        let w1 = setState (\<lambda>s. s\<lparr> isProcessing := True \<rparr>) w
        in w1\<lparr> fetches := fetches w1 @
                 [\<lparr> message = [], conversationHistory = messages c,
                    requestType = str ''ielts_score'' \<rparr>] \<rparr>)"

fun requestIELTSScore_resume :: "fetch_outcome \<Rightarrow> world \<Rightarrow> world" where
  "requestIELTSScore_resume NetworkError w =
     catch_finally (str ''Failed to get IELTS score. Please try again.'') w"
| "requestIELTSScore_resume (Response ok body) w =
     (if \<not> ok then catch_finally (str ''Failed to get IELTS score. Please try again.'') w
      else case body of
          NotJson \<Rightarrow> catch_finally (str ''Failed to get IELTS score. Please try again.'') w
        | JsonNull \<Rightarrow> catch_finally (str ''Failed to get IELTS score. Please try again.'') w
        | JsonData response usage \<Rightarrow> reply_received response usage w)"

section \<open>Speech capture\<close>

text \<open>
  One entry of \<open>event.results\<close>: whether it is final, and the transcript of its first
  alternative.
\<close>

record SpeechRecognitionResult =
  isFinal :: bool
  alternative :: jsstring

record SpeechRecognitionEvent =
  results :: "SpeechRecognitionResult list"
  resultIndex :: nat

text \<open>
  The loop of \<open>onresult\<close> over the results from \<open>resultIndex\<close> on; the accumulator is
  (\<open>interimTranscript\<close>, \<open>finalTranscript\<close>).
\<close>

fun collect :: "SpeechRecognitionResult list \<Rightarrow> jsstring \<times> jsstring \<Rightarrow> jsstring \<times> jsstring" where
  "collect [] acc = acc"
| "collect (r # rs) (interimTranscript, finalTranscript) =
     collect rs (if isFinal r then (interimTranscript, finalTranscript @ alternative r)
                 else (interimTranscript @ alternative r, finalTranscript))"

definition transcripts :: "SpeechRecognitionEvent \<Rightarrow> jsstring \<times> jsstring" where
  "transcripts event = collect (drop (resultIndex event) (results event)) ([], [])"

definition startListening :: "state \<Rightarrow> world \<Rightarrow> world" where
  "startListening c w =
     (if recognitionRef w \<and> \<not> isListening c
      then
        let w1 = setState (\<lambda>s. s\<lparr> transcript := [] \<rparr>) w;
            w2 = setState (\<lambda>s. s\<lparr> error := [] \<rparr>) w1;
            w3 = w2\<lparr> finalTranscriptRef := [] \<rparr>;
            w4 = setState (\<lambda>s. s\<lparr> hasSpokenContent := False \<rparr>) w3
        in case engine_start w4 of
             Some w5 \<Rightarrow> w5
           | None \<Rightarrow> setState (\<lambda>s. s\<lparr> error :=
                       (str ''Could not start speech recognition. Please try again.'') \<rparr>) w4
      else w)"

definition stopListening :: "state \<Rightarrow> world \<Rightarrow> world" where
  "stopListening c w =
     (let w1 = setState (\<lambda>s. s\<lparr> isListening := False \<rparr>) w;
          w2 = (case silenceTimer c of
                  Some t \<Rightarrow> setState (\<lambda>s. s\<lparr> silenceTimer := None \<rparr>) (clearTimeout t w1)
                | None \<Rightarrow> w1);
          w3 = (if trim (finalTranscriptRef w2) \<noteq> []
                then (handleUserInput c (trim (finalTranscriptRef w2)) w2)
                       \<lparr> finalTranscriptRef := [] \<rparr>
                else w2)
      in setState (\<lambda>s. s\<lparr> hasSpokenContent := False \<rparr>) w3)"

definition onstart :: "world \<Rightarrow> world" where
  "onstart w =
     (let w1 = setState (\<lambda>s. s\<lparr> isListening := True \<rparr>) w;
          w2 = setState (\<lambda>s. s\<lparr> error := [] \<rparr>) w1;
          w3 = w2\<lparr> finalTranscriptRef := [] \<rparr>
      in setState (\<lambda>s. s\<lparr> hasSpokenContent := False \<rparr>) w3)"

definition onresult :: "state \<Rightarrow> SpeechRecognitionEvent \<Rightarrow> world \<Rightarrow> world" where
  "onresult c event w =
     (let (interimTranscript, finalTranscript) = transcripts event;
          w1 = setState (\<lambda>s. s\<lparr> transcript :=
                 finalTranscriptRef w @ finalTranscript @ interimTranscript \<rparr>) w;
          w2 = (if finalTranscript \<noteq> []
                then
                  let w3 = w1\<lparr> finalTranscriptRef := finalTranscriptRef w1 @ finalTranscript \<rparr>;
                      w4 = setState (\<lambda>s. s\<lparr> hasSpokenContent := True \<rparr>) w3;
                      w5 = (case silenceTimer c of
                              Some t \<Rightarrow> clearTimeout t w4
                            | None \<Rightarrow> w4);
                      (newTimer, w6) = setTimeout (SilenceTimeout c) 3000 w5
                  in setState (\<lambda>s. s\<lparr> silenceTimer := Some newTimer \<rparr>) w6
                else w1)
      in if interimTranscript \<noteq> []
         then (case silenceTimer c of
                 Some t \<Rightarrow> setState (\<lambda>s. s\<lparr> silenceTimer := None \<rparr>) (clearTimeout t w2)
               | None \<Rightarrow> w2)
         else w2)"

definition onerror :: "state \<Rightarrow> jsstring \<Rightarrow> world \<Rightarrow> world" where
  "onerror c err w =
     (if err = str ''network'' \<or> err = str ''no-speech'' then w
      else if err \<noteq> str ''aborted''
      then
        let w1 = setState (\<lambda>s. s\<lparr> error := str ''Speech recognition error: '' @ err \<rparr>) w
        in snd (setTimeout (ErrorRestart c) 1000 w1)
      else w)"

definition onend :: "state \<Rightarrow> world \<Rightarrow> world" where
  "onend c w =
     (if isListening c \<and> \<not> isProcessing c then snd (setTimeout (EndRestart c) 100 w)
      else w)"

text \<open>What each timer callback does when it runs.\<close>

fun run_callback :: "callback \<Rightarrow> world \<Rightarrow> world" where
  "run_callback (SilenceTimeout c) w =
     (if trim (finalTranscriptRef w) \<noteq> [] \<and> hasSpokenContent c
      then
        let w1 = handleUserInput c (trim (finalTranscriptRef w)) w;
            w2 = w1\<lparr> finalTranscriptRef := [] \<rparr>
        in setState (\<lambda>s. s\<lparr> hasSpokenContent := False \<rparr>) w2
      else w)"
| "run_callback (ErrorRestart c) w = (if isListening c then startListening c w else w)"
| "run_callback (EndRestart c) w =
     (if recognitionRef w \<and> isListening c
      then (case engine_start w of Some w1 \<Rightarrow> w1 | None \<Rightarrow> w)
      else w)"
| "run_callback (SpeakReply text) w = w\<lparr> speakTextCalls := speakTextCalls w @ [text] \<rparr>"

text \<open>
  The timer with identifier \<open>t\<close> expires: it leaves the pending timers and its callback
  runs. A cleared timer is not pending, and nothing happens.
\<close>

definition fire :: "nat \<Rightarrow> world \<Rightarrow> world" where
  "fire t w =
     (case find (\<lambda>x. fst x = t) (timers w) of
        None \<Rightarrow> w
      | Some (_, _, cb) \<Rightarrow> run_callback cb (clearTimeout t w))"

definition pending :: "nat \<Rightarrow> world \<Rightarrow> bool" where
  "pending t w \<longleftrightarrow> t \<in> set (map fst (timers w))"

text \<open>
  A run of result events, each given with the closure of the handler that receives it.
  Which render that is, is for the statements to say: the effect that installs the handlers
  depends on \<open>isListening\<close>, \<open>isProcessing\<close>, \<open>silenceTimer\<close> and
  \<open>hasSpokenContent\<close>, not on \<open>messages\<close>, and it creates a new recognition object
  each time it runs.
\<close>

definition results_run :: "world \<Rightarrow> (state \<times> SpeechRecognitionEvent) list \<Rightarrow> world" where
  "results_run w handled = foldl (\<lambda>w (c, event). onresult c event w) w handled"


text \<open>The page as first rendered, with a recognition object and nothing pending.\<close>

definition initial_state :: state where
  "initial_state =
     \<lparr> isListening = False, isProcessing = False, isSpeaking = False, messages = [],
       transcript = [], error = [], silenceTimer = None, hasSpokenContent = False,
       costs = zeroCosts \<rparr>"

definition initial_world :: world where
  "initial_world =
     \<lparr> st = initial_state, finalTranscriptRef = [], recognitionRef = True,
       recognizing = False, timers = [], nextTimer = 1, fetches = [],
       speakTextCalls = [] \<rparr>"

text \<open>A result event with one final segment, one interim segment, or one of each.\<close>

definition final_event :: "jsstring \<Rightarrow> SpeechRecognitionEvent" where
  "final_event s = \<lparr> results = [\<lparr> isFinal = True, alternative = s \<rparr>], resultIndex = 0 \<rparr>"

definition interim_event :: "jsstring \<Rightarrow> SpeechRecognitionEvent" where
  "interim_event s = \<lparr> results = [\<lparr> isFinal = False, alternative = s \<rparr>], resultIndex = 0 \<rparr>"

definition mixed_event :: "jsstring \<Rightarrow> jsstring \<Rightarrow> SpeechRecognitionEvent" where
  "mixed_event f i =
     \<lparr> results = [\<lparr> isFinal = True, alternative = f \<rparr>, \<lparr> isFinal = False, alternative = i \<rparr>],
       resultIndex = 0 \<rparr>"


section \<open>The chat route\<close>

datatype chat_role = System | UserRole | AssistantRole

type_synonym chat_message = "chat_role \<times> jsstring option"

datatype response_body = ErrorBody jsstring | ChatBody jsstring TokenUsage

record http_response =
  status :: nat
  body :: response_body

text \<open>
  \<open>POST\<close> of \<open>/api/chat\<close>. The request body is \<open>None\<close> when \<open>request.json()\<close>
  rejects, and otherwise has the shape that the page sends. \<open>generateText\<close> is the call
  to the language model: \<open>None\<close> when it rejects, otherwise the text and the usage. The
  two fixed prompt texts (the system prompt and the scoring request) are parameters.
\<close>

definition POST ::
  "jsstring \<Rightarrow> jsstring \<Rightarrow> (chat_message list \<Rightarrow> (jsstring \<times> TokenUsage) option) \<Rightarrow>
   request option \<Rightarrow> http_response" where
  "POST systemPrompt scorePrompt generateText json =
     (case json of
        None \<Rightarrow> \<lparr> status = 500, body = ErrorBody (str ''Failed to process your request'') \<rparr>
      | Some req \<Rightarrow>
          if message req = [] \<and> requestType req \<noteq> str ''ielts_score''
          then \<lparr> status = 400, body = ErrorBody (str ''Message is required'') \<rparr>
          else
            let history = map (\<lambda>msg. (if role msg = User then UserRole else AssistantRole,
                                       content msg)) (conversationHistory req);
                current = (if requestType req = str ''ielts_score''
                           then (UserRole, Some scorePrompt)
                           else (UserRole, Some (message req)));
                chat = [(System, Some systemPrompt)] @ history @ [current]
            in (case generateText chat of
                  None \<Rightarrow> \<lparr> status = 500, body = ErrorBody (str ''Failed to process your request'') \<rparr>
                | Some (text, usage) \<Rightarrow>
                    \<lparr> status = 200,
                      body = ChatBody text
                        \<lparr> promptTokens = promptTokens usage,
                          completionTokens = completionTokens usage,
                          TokenUsage.totalTokens = TokenUsage.totalTokens usage \<rparr> \<rparr>))"

text \<open>
  A number on its way through JSON: \<open>NaN\<close> and the infinities are written as \<open>null\<close>,
  which the arithmetic of \<open>calculateCost\<close> reads as 0.
\<close>

fun through_json :: "number \<Rightarrow> number" where
  "through_json (Finite x) = Finite x"
| "through_json _ = Finite 0"

definition usage_through_json :: "TokenUsage \<Rightarrow> TokenUsage" where
  "usage_through_json u =
     \<lparr> promptTokens = through_json (promptTokens u),
       completionTokens = through_json (completionTokens u),
       TokenUsage.totalTokens = through_json (TokenUsage.totalTokens u) \<rparr>"

text \<open>
  What \<open>fetch\<close> yields in the page for a response of the route: \<open>ok\<close> is true for
  a status from 200 to 299, and an error body has neither \<open>response\<close> nor \<open>usage\<close>.
\<close>

definition received :: "http_response \<Rightarrow> fetch_outcome" where
  "received r =
     Response (200 \<le> status r \<and> status r < 300)
       (case body r of
          ErrorBody e \<Rightarrow> JsonData None None
        | ChatBody text u \<Rightarrow> JsonData (Some text) (Some (usage_through_json u)))"

section \<open>Situations and predicates used in the statements\<close>

text \<open>The page after the microphone button was pressed and the engine reported its start.\<close>

definition listening_world :: world where
  "listening_world = onstart (startListening initial_state initial_world)"

text \<open>The same page after one turn was submitted and before the backend answered.\<close>

definition busy_world :: world where
  "busy_world = handleUserInput (st listening_world) (str ''How are you'') listening_world"

text \<open>
  The listening page receives the final segment ``I went'', then an event with the final
  segment `` to the'' and the interim segment `` sto'', then an event with the interim
  segment `` store''. Each event is handled with the state stored before it as closure.
\<close>

definition heard_first :: world where
  "heard_first = onresult (st listening_world) (final_event (str ''I went'')) listening_world"

definition heard_second :: world where
  "heard_second =
     onresult (st heard_first) (mixed_event (str '' to the'') (str '' sto'')) heard_first"

definition heard_third :: world where
  "heard_third = onresult (st heard_second) (interim_event (str '' store'')) heard_second"

text \<open>The listening page after the final segment ``Hello,'', handled likewise.\<close>

definition hello_heard :: world where
  "hello_heard = onresult (st listening_world) (final_event (str ''Hello,'')) listening_world"

text \<open>
  The listening page with a transcript buffer that starts and ends with a no-break space.
\<close>

definition padded_world :: world where
  "padded_world = listening_world\<lparr> finalTranscriptRef := [0xA0] @ str ''hi'' @ [0xA0] \<rparr>"

text \<open>The user message that a submission of \<open>input\<close> appends, and the request it sends.\<close>

definition userMessage :: "jsstring \<Rightarrow> Message" where
  "userMessage input = \<lparr> role = User, content = Some input \<rparr>"

definition normalRequest :: "jsstring \<Rightarrow> Message list \<Rightarrow> request" where
  "normalRequest input history =
     \<lparr> message = input, conversationHistory = history, requestType = str ''normal'' \<rparr>"

text \<open>
  The ways in which the backend call of a turn fails as far as the page detects it: the
  fetch rejects, the status is not a success, the body is not JSON, or the body is
  \<open>null\<close>.
\<close>

fun detected_failure :: "fetch_outcome \<Rightarrow> bool" where
  "detected_failure NetworkError = True"
| "detected_failure (Response ok data) = (\<not> ok \<or> data = NotJson \<or> data = JsonNull)"

text \<open>Every pending timer has an identifier that was already handed out.\<close>

definition timers_wf :: "world \<Rightarrow> bool" where
  "timers_wf w \<longleftrightarrow> list_all (\<lambda>x. fst x < nextTimer w) (timers w)"

text \<open>A result event that brings final segments and no interim segment.\<close>

definition final_text :: "SpeechRecognitionEvent \<Rightarrow> jsstring" where
  "final_text event = snd (transcripts event)"

definition interim_text :: "SpeechRecognitionEvent \<Rightarrow> jsstring" where
  "interim_text event = fst (transcripts event)"

definition final_only :: "SpeechRecognitionEvent \<Rightarrow> bool" where
  "final_only event \<longleftrightarrow> interim_text event = [] \<and> final_text event \<noteq> []"

text \<open>A language model that answers every conversation with the same text and usage.\<close>

definition fixed_reply :: "chat_message list \<Rightarrow> (jsstring \<times> TokenUsage) option" where
  "fixed_reply chat = Some ((str ''I am doing well, thanks!''), tokenUsage 50 20 70)"

section \<open>Evaluation of the number model\<close>

lemma bit_length_0: "bit_length 0 = 0"
  by (simp add: bit_length.simps)

lemma bit_length_1: "bit_length 1 = 1"
  by (simp add: bit_length.simps [of 1] bit_length_0)

lemma bit_length_Bit0: "bit_length (numeral (Num.Bit0 k)) = 1 + bit_length (numeral k)"
  by (subst bit_length.simps) simp

lemma bit_length_Bit1: "bit_length (numeral (Num.Bit1 k)) = 1 + bit_length (numeral k)"
  by (subst bit_length.simps) simp

lemmas double_eval =
  to_double_def round_pos_def round_half_even_def exponent_def pow2_def Let_def
  bit_length_0 bit_length_1 bit_length_Bit0 bit_length_Bit1

lemmas cost_eval =
  calculateCost_def tokenUsage_def zeroCosts_def PROMPT_TOKEN_COST_def
  COMPLETION_TOKEN_COST_def USD_TO_BDT_RATE_def

lemma record_100_50_150:
  "calculateCost (tokenUsage 100 50 150) zeroCosts =
     \<lparr> totalPromptTokens = Finite 100, totalCompletionTokens = Finite 50,
       totalTokens = Finite 150,
       totalCostUSD = Finite (5764607523034235 / 2 ^ 62),
       totalCostBDT = Finite (2476979795053773 / 2 ^ 54) \<rparr>"
  by (simp add: cost_eval double_eval)

lemma record_200_100_300_after:
  "calculateCost (tokenUsage 200 100 300) (calculateCost (tokenUsage 100 50 150) zeroCosts) =
     \<lparr> totalPromptTokens = Finite 300, totalCompletionTokens = Finite 150,
       totalTokens = Finite 450,
       totalCostUSD = Finite (1080863910568919 / 2 ^ 58),
       totalCostBDT = Finite (7430939385161319 / 2 ^ 54) \<rparr>"
  by (simp add: record_100_50_150) (simp add: cost_eval double_eval)

lemma record_300_150_450:
  "calculateCost (tokenUsage 300 150 450) zeroCosts =
     \<lparr> totalPromptTokens = Finite 300, totalCompletionTokens = Finite 150,
       totalTokens = Finite 450,
       totalCostUSD = Finite (1080863910568919 / 2 ^ 58),
       totalCostBDT = Finite (7430939385161318 / 2 ^ 54) \<rparr>"
  by (simp add: cost_eval double_eval)

section \<open>Cost accumulation\<close>

text \<open>
  C9 (as stated, refuted). Recording the usage (100, 50, 150) and then (200, 100, 300) does
  not give the same five totals as recording (300, 150, 450) in one call: the totals in
  BDT differ.
\<close>

theorem cost_two_records_differ_from_one:
  "calculateCost (tokenUsage 200 100 300) (calculateCost (tokenUsage 100 50 150) zeroCosts)
     \<noteq> calculateCost (tokenUsage 300 150 450) zeroCosts"
  by (simp add: record_200_100_300_after record_300_150_450)

text \<open>
  C9 (amended). Recording (100, 50, 150) and then (200, 100, 300) gives the same three token
  totals and the same total in USD as recording (300, 150, 450) in one call; the totals in
  BDT are 0.41250000000000003 and 0.4125, one unit in the last place (\<open>2 ^ - 54\<close>) apart.
\<close>

theorem cost_two_records_agree_up_to_rounding:
  "totalPromptTokens (calculateCost (tokenUsage 200 100 300)
       (calculateCost (tokenUsage 100 50 150) zeroCosts))
     = totalPromptTokens (calculateCost (tokenUsage 300 150 450) zeroCosts)
   \<and> totalCompletionTokens (calculateCost (tokenUsage 200 100 300)
       (calculateCost (tokenUsage 100 50 150) zeroCosts))
     = totalCompletionTokens (calculateCost (tokenUsage 300 150 450) zeroCosts)
   \<and> totalTokens (calculateCost (tokenUsage 200 100 300)
       (calculateCost (tokenUsage 100 50 150) zeroCosts))
     = totalTokens (calculateCost (tokenUsage 300 150 450) zeroCosts)
   \<and> totalCostUSD (calculateCost (tokenUsage 200 100 300)
       (calculateCost (tokenUsage 100 50 150) zeroCosts))
     = totalCostUSD (calculateCost (tokenUsage 300 150 450) zeroCosts)
   \<and> totalCostBDT (calculateCost (tokenUsage 200 100 300)
       (calculateCost (tokenUsage 100 50 150) zeroCosts))
     = Finite (7430939385161319 / 2 ^ 54)
   \<and> totalCostBDT (calculateCost (tokenUsage 300 150 450) zeroCosts)
     = Finite (7430939385161318 / 2 ^ 54)"
  by (simp add: record_200_100_300_after record_300_150_450)


section \<open>Basic facts about the model\<close>

lemma trim_idem: "trim (trim s) = trim s"
  unfolding trim_def
  by (metis (no_types, lifting) ext dropWhile_eq_Nil_conv
    dropWhile_eq_self_iff dropWhile_last hd_dropWhile hd_rev rev_is_Nil_conv
    rev_swap)

lemma str_eq_iff: "str a = str b \<longleftrightarrow> a = b"
  by (simp add: str_def inj_map_eq_map inj_on_def)

lemma str_Nil_iff: "str a = [] \<longleftrightarrow> a = []"
  by (simp add: str_def)

lemmas prim_defs = setState_def setTimeout_def clearTimeout_def engine_start_def

lemmas world_eval =
  listening_world_def busy_world_def padded_world_def initial_world_def initial_state_def
  onstart_def startListening_def handleUserInput_def prim_defs trim_def is_space_def
  str_def userMessage_def normalRequest_def Let_def

lemma listening_world_eq:
  "listening_world =
     \<lparr> st = initial_state\<lparr> isListening := True \<rparr>, finalTranscriptRef = [],
       recognitionRef = True, recognizing = True, timers = [], nextTimer = 1, fetches = [],
       speakTextCalls = [] \<rparr>"
  by (simp add: world_eval)

lemma busy_world_eq:
  "busy_world =
     listening_world\<lparr> st := (st listening_world)\<lparr> messages := [userMessage (str ''How are you'')],
                          isProcessing := True \<rparr>,
                        fetches := [normalRequest (str ''How are you'') []] \<rparr>"
  by (simp add: world_eval)

lemma handleUserInput_blank: "trim input = [] \<Longrightarrow> handleUserInput c input w = w"
  by (simp add: handleUserInput_def)

lemma handleUserInput_submit:
  "trim input \<noteq> [] \<Longrightarrow>
   handleUserInput c input w =
     w\<lparr> st := (st w)\<lparr> messages := messages c @ [userMessage input], isProcessing := True,
                       transcript := [] \<rparr>,
        fetches := fetches w @ [normalRequest input (messages c)] \<rparr>"
  by (simp add: handleUserInput_def prim_defs userMessage_def normalRequest_def Let_def)

lemma pending_clearTimeout: "\<not> pending t (clearTimeout t w)"
  by (auto simp add: pending_def clearTimeout_def)

lemma stopListening_submit:
  "trim (finalTranscriptRef w) \<noteq> [] \<Longrightarrow>
   stopListening c w =
     w\<lparr> st := (st w)\<lparr> isListening := False,
                       silenceTimer := (case silenceTimer c of
                                          Some t \<Rightarrow> None
                                        | None \<Rightarrow> silenceTimer (st w)),
                       messages := messages c @ [userMessage (trim (finalTranscriptRef w))],
                       isProcessing := True, transcript := [], hasSpokenContent := False \<rparr>,
        timers := (case silenceTimer c of
                     Some t \<Rightarrow> filter (\<lambda>x. fst x \<noteq> t) (timers w)
                   | None \<Rightarrow> timers w),
        fetches := fetches w @ [normalRequest (trim (finalTranscriptRef w)) (messages c)],
        finalTranscriptRef := [] \<rparr>"
  by (cases "silenceTimer c")
     (simp_all add: stopListening_def handleUserInput_submit trim_idem prim_defs Let_def)

lemma catch_finally_eq:
  "catch_finally msg w = w\<lparr> st := (st w)\<lparr> error := msg, isProcessing := False \<rparr> \<rparr>"
  by (simp add: catch_finally_def setState_def)

lemma resume_failure:
  "detected_failure r \<Longrightarrow>
   handleUserInput_resume r w =
     catch_finally (str ''Failed to process your request. Please try again.'') w"
  by (cases r) (auto split: payload.splits)

lemma find_app:
  "find P (xs @ ys) = (case find P xs of None \<Rightarrow> find P ys | Some x \<Rightarrow> Some x)"
  by (induction xs) simp_all

lemma fire_last:
  "timers_wf w \<Longrightarrow>
   fire (nextTimer w) (w\<lparr> timers := timers w @ [(nextTimer w, ms, cb)],
                          nextTimer := Suc (nextTimer w) \<rparr>)
     = run_callback cb (w\<lparr> nextTimer := Suc (nextTimer w) \<rparr>)"
proof -
  assume wf: "timers_wf w"
  then have fresh: "\<forall>x \<in> set (timers w). fst x \<noteq> nextTimer w"
    by (auto simp add: timers_wf_def list_all_iff)
  then have "find (\<lambda>x. fst x = nextTimer w) (timers w) = None"
    by (force simp add: find_None_iff)
  moreover have "filter (\<lambda>x. fst x \<noteq> nextTimer w) (timers w) = timers w"
    using fresh by (simp add: filter_id_conv)
  ultimately show ?thesis
    by (simp add: fire_def find_app clearTimeout_def)
qed

lemma POST_success:
  "200 \<le> status (POST sp ip gen json) \<and> status (POST sp ip gen json) < 300 \<Longrightarrow>
   \<exists>text u. body (POST sp ip gen json) = ChatBody text u"
  by (auto simp add: POST_def Let_def split: option.splits if_splits)

section \<open>Turn submission\<close>

text \<open>
  C1 (as stated, refuted). While the request of the turn ``How are you'' is in flight
  (the processing flag is set), a call of \<open>handleUserInput\<close> with the text
  ``Fine thanks'' sends a second request and appends a second message to the log.
\<close>

theorem handleUserInput_while_processing:
  "isProcessing (st busy_world)
   \<and> fetches (handleUserInput (st busy_world) (str ''Fine thanks'') busy_world)
       = fetches busy_world @ [normalRequest (str ''Fine thanks'') [userMessage (str ''How are you'')]]
   \<and> messages (st (handleUserInput (st busy_world) (str ''Fine thanks'') busy_world))
       = messages (st busy_world) @ [userMessage (str ''Fine thanks'')]"
  by (simp add: busy_world_eq listening_world_eq handleUserInput_submit trim_def is_space_def
        str_def)

text \<open>
  C1 (amended). \<open>handleUserInput\<close> does not read the processing flag. With an empty or
  white-space-only input it does nothing, in every state. With any other input it sends one request,
  stores the log of its render extended by the user message, and sets the processing flag,
  also while an earlier request is in flight.
\<close>

theorem handleUserInput_ignores_processing:
  "(trim input = [] \<longrightarrow> handleUserInput c input w = w)
   \<and> (trim input \<noteq> [] \<longrightarrow>
        fetches (handleUserInput c input w) = fetches w @ [normalRequest input (messages c)]
        \<and> messages (st (handleUserInput c input w)) = messages c @ [userMessage input]
        \<and> isProcessing (st (handleUserInput c input w)))"
  by (simp add: handleUserInput_blank handleUserInput_submit)

text \<open>The statement at a page whose processing flag is set.\<close>

theorem handleUserInput_ignores_processing_witness:
  "isProcessing (st busy_world) \<and> trim (str ''Fine thanks'') \<noteq> []
   \<and> trim [0xA0, 0x20, 0x3000] = []
   \<and> handleUserInput (st busy_world) [0xA0, 0x20, 0x3000] busy_world = busy_world
   \<and> length (fetches (handleUserInput (st busy_world) (str ''Fine thanks'') busy_world)) = 2
   \<and> isProcessing (st (handleUserInput (st busy_world) (str ''Fine thanks'') busy_world))"
  using handleUserInput_ignores_processing [of "str ''Fine thanks''" "st busy_world" busy_world]
    handleUserInput_ignores_processing [of "[0xA0, 0x20, 0x3000]" "st busy_world" busy_world]
  by (simp add: busy_world_eq listening_world_eq trim_def is_space_def str_def)

section \<open>Stopping the capture\<close>

text \<open>
  C4 (as stated, refuted). With a buffer that is ``hi'' between two no-break spaces, which
  is not white space only, \<open>stopListening\<close> submits the text ``hi'': the submitted
  content is not the content of the buffer. And after the final segment ``I went'' and the
  event with the final segment `` to the'' and the interim segment `` sto'', timer 2 is
  pending but not in the state, and it is still pending after \<open>stopListening\<close>: not
  every pending silence timer is cancelled.
\<close>

theorem stopListening_trims_buffer:
  "finalTranscriptRef padded_world = [0xA0] @ str ''hi'' @ [0xA0]
   \<and> trim (finalTranscriptRef padded_world) \<noteq> []
   \<and> map message (fetches (stopListening (st padded_world) padded_world)) = [str ''hi'']
   \<and> trim (finalTranscriptRef heard_second) \<noteq> []
   \<and> pending 2 heard_second
   \<and> pending 2 (stopListening (st heard_second) heard_second)"
  by (simp add: padded_world_def heard_second_def heard_first_def onresult_def transcripts_def
        final_event_def mixed_event_def listening_world_eq initial_state_def stopListening_def
        handleUserInput_def prim_defs pending_def normalRequest_def trim_def is_space_def
        str_def Let_def)

text \<open>
  C4 (amended). When the transcript buffer is not white space only, \<open>stopListening\<close>
  sends exactly one request, whose message is the buffer without its leading and trailing
  white space, appends that user message to the log of its render, and leaves the buffer
  empty and the listening flag cleared; the silence timer that the state of its render
  holds is cancelled and forgotten.
\<close>

theorem stopListening_flushes:
  "trim (finalTranscriptRef w) \<noteq> [] \<Longrightarrow>
   fetches (stopListening c w)
     = fetches w @ [normalRequest (trim (finalTranscriptRef w)) (messages c)]
   \<and> messages (st (stopListening c w))
       = messages c @ [userMessage (trim (finalTranscriptRef w))]
   \<and> finalTranscriptRef (stopListening c w) = []
   \<and> \<not> isListening (st (stopListening c w))
   \<and> (\<forall>t. silenceTimer c = Some t \<longrightarrow>
          \<not> pending t (stopListening c w) \<and> silenceTimer (st (stopListening c w)) = None)"
  by (auto simp add: stopListening_submit pending_def)

text \<open>
  The statement at the listening page after the final segment ``I went'', whose silence
  timer is pending, and at the page with the buffer between no-break spaces.
\<close>

theorem stopListening_flushes_witness:
  "trim (finalTranscriptRef heard_first) \<noteq> []
   \<and> pending 1 heard_first
   \<and> silenceTimer (st heard_first) = Some 1
   \<and> fetches (stopListening (st heard_first) heard_first) = [normalRequest (str ''I went'') []]
   \<and> \<not> pending 1 (stopListening (st heard_first) heard_first)
   \<and> finalTranscriptRef (stopListening (st heard_first) heard_first) = []
   \<and> trim (finalTranscriptRef padded_world) = str ''hi''
   \<and> fetches (stopListening (st padded_world) padded_world) = [normalRequest (str ''hi'') []]"
  using stopListening_flushes [of heard_first "st heard_first"]
    stopListening_flushes [of padded_world "st padded_world"]
  by (simp add: heard_first_def padded_world_def onresult_def transcripts_def final_event_def
        listening_world_eq initial_state_def prim_defs pending_def trim_def is_space_def
        str_def Let_def)

section \<open>Backend failures\<close>

text \<open>
  C5 (as stated, refuted). A success response whose body is a JSON value without a
  \<open>response\<close> property (an unexpected payload) is not treated as a failure: an assistant
  message with undefined content is appended and no error is set.
\<close>

theorem unexpected_payload_accepted:
  "handleUserInput_resume (Response True (JsonData None None)) busy_world =
     busy_world\<lparr> st := (st busy_world)\<lparr> messages := [userMessage (str ''How are you''),
                                           \<lparr> role = Assistant, content = None \<rparr>],
                                      isProcessing := False \<rparr>,
                 timers := [(1, 100, SpeakReply None)], nextTimer := 2 \<rparr>
   \<and> error (st (handleUserInput_resume (Response True (JsonData None None)) busy_world)) = []"
  by (simp add: busy_world_eq listening_world_eq reply_received_def prim_defs Let_def
        initial_state_def)

text \<open>
  C5 (amended). When the fetch rejects, the status is not a success, the body is not JSON or
  the body is \<open>null\<close>, the continuation of \<open>handleUserInput\<close> stores the one error
  text and clears the processing flag, and changes nothing else: no assistant message is
  appended, and the log of a turn submitted just before still ends with the user's message.
\<close>

theorem backend_failure_handling:
  "detected_failure r \<Longrightarrow>
   handleUserInput_resume r w =
     w\<lparr> st := (st w)\<lparr> error := str ''Failed to process your request. Please try again.'',
                       isProcessing := False \<rparr> \<rparr>
   \<and> (trim input \<noteq> [] \<longrightarrow>
        messages (st (handleUserInput_resume r (handleUserInput c input w)))
          = messages c @ [userMessage input])"
  by (simp add: resume_failure catch_finally_eq handleUserInput_submit)

text \<open>The statement for a response with status 500 to the turn in flight.\<close>

theorem backend_failure_handling_witness:
  "detected_failure (Response False (JsonData None None))
   \<and> detected_failure NetworkError
   \<and> detected_failure (Response True NotJson)
   \<and> trim (str ''How are you'') \<noteq> []
   \<and> error (st (handleUserInput_resume (Response False (JsonData None None)) busy_world))
       = str ''Failed to process your request. Please try again.''
   \<and> messages (st (handleUserInput_resume (Response False (JsonData None None)) busy_world))
       = [userMessage (str ''How are you'')]
   \<and> \<not> isProcessing (st (handleUserInput_resume (Response False (JsonData None None))
           busy_world))"
  using backend_failure_handling [of "Response False (JsonData None None)" busy_world
      "str ''How are you''" "st listening_world"]
  by (simp add: busy_world_eq listening_world_eq trim_def is_space_def str_def)

section \<open>Engine errors and engine end\<close>

text \<open>
  C6 (as stated, refuted). The error \<open>aborted\<close> is neither \<open>no-speech\<close> nor
  \<open>network\<close>, and \<open>onerror\<close> surfaces no message and schedules no restart for it.
\<close>

theorem onerror_aborted_silent:
  "onerror (st listening_world) (str ''aborted'') listening_world = listening_world
   \<and> error (st listening_world) = [] \<and> timers listening_world = []"
  by (simp add: onerror_def listening_world_eq initial_state_def)

text \<open>
  C6 (amended). \<open>onerror\<close> ignores the errors \<open>network\<close>, \<open>no-speech\<close> and
  \<open>aborted\<close>. For every other error it stores the message
  ``Speech recognition error: '' followed by the error, and schedules, 1000 ms later, a
  callback that calls \<open>startListening\<close> when the listening flag of the handler's render is
  set.
\<close>

theorem onerror_policy:
  "(err = str ''network'' \<or> err = str ''no-speech'' \<or> err = str ''aborted'' \<longrightarrow> onerror c err w = w)
   \<and> (err \<noteq> str ''network'' \<and> err \<noteq> str ''no-speech'' \<and> err \<noteq> str ''aborted'' \<longrightarrow>
        onerror c err w =
          w\<lparr> st := (st w)\<lparr> error := str ''Speech recognition error: '' @ err \<rparr>,
             timers := timers w @ [(nextTimer w, 1000, ErrorRestart c)],
             nextTimer := Suc (nextTimer w) \<rparr>)
   \<and> run_callback (ErrorRestart c) w = (if isListening c then startListening c w else w)"
  by (auto simp add: onerror_def prim_defs Let_def)

text \<open>The statement for \<open>no-speech\<close> and for \<open>audio-capture\<close>.\<close>

theorem onerror_policy_witness:
  "onerror (st listening_world) (str ''no-speech'') listening_world = listening_world
   \<and> (str ''audio-capture'') \<noteq> str ''network'' \<and> (str ''audio-capture'') \<noteq> str ''no-speech''
   \<and> (str ''audio-capture'') \<noteq> str ''aborted''
   \<and> error (st (onerror (st listening_world) (str ''audio-capture'') listening_world))
       = str ''Speech recognition error: audio-capture''
   \<and> timers (onerror (st listening_world) (str ''audio-capture'') listening_world)
       = [(1, 1000, ErrorRestart (st listening_world))]"
  using onerror_policy [of "(str ''no-speech'')" "st listening_world" listening_world]
    onerror_policy [of "str ''audio-capture''" "st listening_world" listening_world]
  by (simp add: listening_world_eq str_eq_iff str_def)

text \<open>
  The restart callback of \<open>onerror\<close> calls \<open>startListening\<close> only when the listening
  flag of its render is set, and \<open>startListening\<close> of the same render returns at once
  when that flag is set: the callback never changes anything.
\<close>

lemma error_restart_has_no_effect: "run_callback (ErrorRestart c) w = w"
  by (simp add: startListening_def)

text \<open>
  What \<open>onend\<close> does depends on the flags of its closure only: when that render is
  listening and not processing it schedules, 100 ms later, a callback that starts the
  recognition; when that render is processing it schedules nothing.
\<close>

lemma onend_closure_policy:
  "(isListening c \<and> \<not> isProcessing c \<longrightarrow>
      onend c w = w\<lparr> timers := timers w @ [(nextTimer w, 100, EndRestart c)],
                     nextTimer := Suc (nextTimer w) \<rparr>)
   \<and> (\<not> isListening c \<or> isProcessing c \<longrightarrow> onend c w = w)
   \<and> (isListening c \<and> \<not> isProcessing c \<and> timers_wf w \<and> recognitionRef w \<and> \<not> recognizing w
        \<longrightarrow> recognizing (fire (nextTimer w) (onend c w)))"
  by (auto simp add: onend_def setTimeout_def fire_last engine_start_def)

text \<open>
  C7 (failing input). The recognition object that the first press of the button starts was
  created, with its handlers, by the effect of the first render, in which \<open>isListening\<close>
  is false; \<open>listening_world\<close> is the page after that start. When the engine ends this
  object, its \<open>onend\<close> reads the flag of the first render and schedules nothing,
  although the page is listening and not processing.
\<close>

theorem onend_of_started_object_schedules_nothing:
  "listening_world = onstart (startListening initial_state initial_world)
   \<and> isListening (st listening_world) \<and> \<not> isProcessing (st listening_world)
   \<and> recognizing listening_world
   \<and> onend initial_state listening_world = listening_world
   \<and> timers (onend initial_state listening_world) = []"
  by (simp add: listening_world_def [symmetric] onend_def)
     (simp add: listening_world_eq initial_state_def)

section \<open>Score requests\<close>

text \<open>
  C8. With an empty conversation log, \<open>requestIELTSScore\<close> only stores the error that asks
  for a conversation first: no request is sent.
\<close>

theorem requestIELTSScore_empty_log:
  "messages c = [] \<Longrightarrow>
   requestIELTSScore c w =
     w\<lparr> st := (st w)\<lparr> error :=
            (str ''Please have a conversation first before requesting an IELTS score.'') \<rparr> \<rparr>
   \<and> fetches (requestIELTSScore c w) = fetches w"
  by (simp add: requestIELTSScore_def setState_def)

text \<open>The statement at the listening page, whose log is empty.\<close>

theorem requestIELTSScore_empty_log_witness:
  "messages (st listening_world) = []
   \<and> fetches (requestIELTSScore (st listening_world) listening_world) = []
   \<and> error (st (requestIELTSScore (st listening_world) listening_world))
       = str ''Please have a conversation first before requesting an IELTS score.''"
  using requestIELTSScore_empty_log [of "st listening_world" listening_world]
  by (simp add: listening_world_eq initial_state_def)

section \<open>Usage in successful responses\<close>

text \<open>
  C10. A response of the chat route with a success status has a body with the reply text and
  a usage object of the three token counts, and the page that receives it records that usage
  in its cost totals.
\<close>

theorem POST_success_carries_usage:
  "200 \<le> status (POST sp ip gen json) \<and> status (POST sp ip gen json) < 300 \<Longrightarrow>
   \<exists>text u. body (POST sp ip gen json) = ChatBody text u
     \<and> received (POST sp ip gen json)
         = Response True (JsonData (Some text) (Some (usage_through_json u)))
     \<and> costs (st (handleUserInput_resume (received (POST sp ip gen json)) w))
         = calculateCost (usage_through_json u) (costs (st w))"
proof -
  assume ok: "200 \<le> status (POST sp ip gen json) \<and> status (POST sp ip gen json) < 300"
  then obtain reply u where b: "body (POST sp ip gen json) = ChatBody reply u"
    using POST_success by blast
  have r: "received (POST sp ip gen json)
             = Response True (JsonData (Some reply) (Some (usage_through_json u)))"
    using ok b by (simp add: received_def)
  have "costs (st (handleUserInput_resume (received (POST sp ip gen json)) w))
          = calculateCost (usage_through_json u) (costs (st w))"
    by (simp add: r reply_received_def prim_defs Let_def)
  with b r show ?thesis by blast
qed

text \<open>
  The statement for the turn ``Hello, how are you'' answered with the usage (50, 20, 70):
  the total number of tokens becomes 70.
\<close>

theorem POST_success_carries_usage_witness:
  "status (POST (str ''system'') (str ''score'') fixed_reply (Some (normalRequest (str ''Hello, how are you'') []))) = 200
   \<and> body (POST (str ''system'') (str ''score'') fixed_reply (Some (normalRequest (str ''Hello, how are you'') [])))
       = ChatBody (str ''I am doing well, thanks!'') (tokenUsage 50 20 70)
   \<and> totalTokens (costs (st (handleUserInput_resume
         (received (POST (str ''system'') (str ''score'') fixed_reply (Some (normalRequest (str ''Hello, how are you'') []))))
         busy_world))) = Finite 70"
  using POST_success_carries_usage [of "(str ''system'')" "(str ''score'')" fixed_reply
      "Some (normalRequest (str ''Hello, how are you'') [])" busy_world]
  by (simp add: POST_def fixed_reply_def normalRequest_def tokenUsage_def
        usage_through_json_def calculateCost_def busy_world_eq listening_world_eq
        initial_state_def zeroCosts_def double_eval received_def reply_received_def
        prim_defs str_eq_iff str_Nil_iff)

section \<open>Silence timeout\<close>

text \<open>
  The effect of one result event with final segments only, whatever the closure of its
  handler, and of a run of such events whose handlers know the stored timer: the buffer
  grows by the final text, each event cancels the timer of its closure and starts a new one,
  whose callback keeps that closure.
\<close>

lemma onresult_final:
  "final_only e \<Longrightarrow>
   onresult c e w =
     w\<lparr> st := (st w)\<lparr> transcript := finalTranscriptRef w @ final_text e,
                       hasSpokenContent := True, silenceTimer := Some (nextTimer w) \<rparr>,
        finalTranscriptRef := finalTranscriptRef w @ final_text e,
        timers := filter (\<lambda>x. Some (fst x) \<noteq> silenceTimer c) (timers w)
                    @ [(nextTimer w, 3000, SilenceTimeout c)],
        nextTimer := Suc (nextTimer w) \<rparr>"
  by (cases "transcripts e"; cases "silenceTimer c")
     (auto simp add: final_only_def final_text_def interim_text_def onresult_def
        prim_defs Let_def)






lemma fire_appended:
  "list_all (\<lambda>x. fst x \<noteq> t) ts \<Longrightarrow> timers w = ts @ [(t, ms, cb)] \<Longrightarrow>
   fire t w = run_callback cb (w\<lparr> timers := ts \<rparr>)"
proof -
  assume fresh: "list_all (\<lambda>x. fst x \<noteq> t) ts" and tw: "timers w = ts @ [(t, ms, cb)]"
  from fresh have "find (\<lambda>x. fst x = t) ts = None"
    by (force simp add: find_None_iff list_all_iff)
  moreover from fresh have "filter (\<lambda>x. fst x \<noteq> t) ts = ts"
    by (simp add: filter_id_conv list_all_iff)
  ultimately show ?thesis
    by (simp add: fire_def tw find_app clearTimeout_def)
qed

lemma old_timers_differ:
  "timers_wf w \<Longrightarrow> 0 < k \<Longrightarrow>
   list_all (\<lambda>x. fst x \<noteq> nextTimer w + k - 1) (filter P (timers w))"
proof -
  assume wf: "timers_wf w" and k: "0 < k"
  have "fst x \<noteq> nextTimer w + k - 1" if "x \<in> set (timers w)" for x
  proof -
    from that wf have "fst x < nextTimer w"
      by (auto simp add: timers_wf_def list_all_iff)
    with k show ?thesis by linarith
  qed
  then show ?thesis by (simp add: list_all_iff)
qed

lemmas run_eval =
  results_run_def hello_heard_def heard_first_def heard_second_def heard_third_def
  onresult_def transcripts_def final_event_def interim_event_def mixed_event_def fire_def
  pending_def prim_defs handleUserInput_def trim_def is_space_def str_def listening_world_eq
  initial_state_def normalRequest_def userMessage_def final_only_def final_text_def
  interim_text_def timers_wf_def Let_def




text \<open>
  The case that the amended statement leaves out. A silence timer whose handler belongs to a
  render with the spoken-content flag not set submits nothing when it fires and leaves the
  buffer as it is. This is the timer of the first final segment after a start: every render
  up to that segment has the flag false. For ``Hello, how are you'' as the only segment, no
  turn is submitted.
\<close>

lemma stale_flag_submits_nothing:
  "final_only e \<Longrightarrow> timers_wf w \<Longrightarrow> \<not> hasSpokenContent c \<Longrightarrow>
   pending (nextTimer w) (onresult c e w)
   \<and> fetches (fire (nextTimer w) (onresult c e w)) = fetches w
   \<and> finalTranscriptRef (fire (nextTimer w) (onresult c e w))
       = finalTranscriptRef w @ final_text e"
proof -
  assume fin: "final_only e" and wf: "timers_wf w" and flag: "\<not> hasSpokenContent c"
  let ?old = "filter (\<lambda>x. Some (fst x) \<noteq> silenceTimer c) (timers w)"
  have fresh: "list_all (\<lambda>x. fst x \<noteq> nextTimer w) ?old"
    using old_timers_differ [OF wf, of 1] by simp
  have tw: "timers (onresult c e w) = ?old @ [(nextTimer w, 3000, SilenceTimeout c)]"
    by (simp add: onresult_final [OF fin])
  have f: "fire (nextTimer w) (onresult c e w)
             = run_callback (SilenceTimeout c) ((onresult c e w)\<lparr> timers := ?old \<rparr>)"
    by (rule fire_appended [OF fresh tw])
  show ?thesis
    by (simp add: f flag) (simp add: onresult_final [OF fin] pending_def)
qed

lemma first_final_segment_not_submitted:
  "\<not> hasSpokenContent (st listening_world)
   \<and> pending 1 (onresult (st listening_world) (final_event (str ''Hello, how are you''))
         listening_world)
   \<and> fetches (fire 1 (onresult (st listening_world) (final_event (str ''Hello, how are you''))
         listening_world)) = []"
  by (simp add: run_eval)

text \<open>
  C3 (failing input). The final segment ``I went'' is followed by an event with the final
  segment `` to the'' and the interim segment `` sto'', and then by an event with the
  interim segment `` store'', each handled with the stored state as closure. Timer 2,
  started by the second final segment, is pending when that last interim segment arrives
  and is still pending afterwards; when it fires, the turn ``I went to the'' is submitted.
\<close>

theorem interim_leaves_timer_pending:
  "pending 2 heard_second
   \<and> interim_text (interim_event (str '' store'')) = str '' store''
   \<and> final_text (interim_event (str '' store'')) = []
   \<and> heard_third = onresult (st heard_second) (interim_event (str '' store'')) heard_second
   \<and> pending 2 heard_third
   \<and> fetches (fire 2 heard_third) = [normalRequest (str ''I went to the'') []]"
  by (simp add: heard_third_def [symmetric]) (simp add: run_eval)

end
